(* ===== verification/Prelude.thy ===== *)
theory Prelude
  imports Main "HOL-Library.Sublist"
begin

text \<open>
  Shared vocabulary of the development: the JavaScript string and array
  operations that \<open>src/scripts.js\<close> calls (\<open>String.prototype.trim\<close>,
  \<open>toLowerCase\<close>, \<open>includes\<close>, \<open>Array.prototype.slice\<close>), modelled on
  strings whose UTF-16 code units are all below 256 (one HOL \<open>char\<close> per code
  unit), together with the list lemmas the component theories share.
  The collection \<open>handler_defs\<close> gathers the definitions of the event
  handlers that are single record updates, so that the invariant proofs can
  unfold them together; the handlers with more structure are reasoned about
  through their own lemmas.
\<close>

named_theorems handler_defs "definitions of the DOM event handlers"

subsection \<open>Strings\<close>

text \<open>
  ECMAScript \<open>WhiteSpace\<close> and \<open>LineTerminator\<close> code units below 256: TAB, LF,
  VT, FF, CR, SPACE and NO-BREAK SPACE (U+00A0).
\<close>

definition js_is_ws :: "char \<Rightarrow> bool" where
  "js_is_ws c \<longleftrightarrow> of_char c \<in> ({9, 10, 11, 12, 13, 32, 160} :: nat set)"

text \<open>\<open>String.prototype.trim\<close>: strip white space at both ends.\<close>

definition js_trim :: "string \<Rightarrow> string" where
  "js_trim s = rev (dropWhile js_is_ws (rev (dropWhile js_is_ws s)))"

text \<open>
  \<open>String.prototype.toLowerCase\<close> on the code units below 256: the Unicode
  lower-case mapping moves A--Z and U+00C0--U+00DE (except U+00D7, the
  multiplication sign) up by 32 and leaves every other such unit alone.
\<close>

definition js_lower_char :: "char \<Rightarrow> char" where
  "js_lower_char c =
     (let n = (of_char c :: nat) in
      if (65 \<le> n \<and> n \<le> 90) \<or> (192 \<le> n \<and> n \<le> 222 \<and> n \<noteq> 215)
      then char_of (n + 32) else c)"

definition js_lower :: "string \<Rightarrow> string" where
  "js_lower s = map js_lower_char s"

text \<open>
  \<open>String.prototype.includes\<close>: the search string occurs in the receiver at
  some position, tried from position 0 upwards.
\<close>

fun js_starts_with :: "string \<Rightarrow> string \<Rightarrow> bool" where
  "js_starts_with s [] = True"
| "js_starts_with [] (c # cs) = False"
| "js_starts_with (d # ds) (c # cs) = (d = c \<and> js_starts_with ds cs)"

fun js_includes :: "string \<Rightarrow> string \<Rightarrow> bool" where
  "js_includes [] t = (t = [])"
| "js_includes (d # ds) t = (js_starts_with (d # ds) t \<or> js_includes ds t)"

subsection \<open>Arrays\<close>

text \<open>
  \<open>Array.prototype.slice(a, b)\<close> for non-negative \<open>a\<close>, \<open>b\<close>: the elements
  at positions \<open>a \<le> i < min b (length xs)\<close>; out-of-range bounds are clamped,
  never an error.
\<close>

definition js_slice :: "'a list \<Rightarrow> nat \<Rightarrow> nat \<Rightarrow> 'a list" where
  "js_slice xs a b = take (b - a) (drop a xs)"

subsection \<open>Lemmas on the string operations\<close>

lemma js_starts_with_prefix [simp]: "js_starts_with s t = prefix t s"
  by (induction s t rule: js_starts_with.induct) auto

text \<open>The JavaScript substring test is the library's \<open>sublist\<close> relation.\<close>

lemma js_includes_sublist [simp]: "js_includes s t = sublist t s"
  by (induction s) (auto simp: sublist_Cons_right)

lemma dropWhile_eq_Nil_iff: "dropWhile P xs = [] \<longleftrightarrow> list_all P xs"
  by (induction xs) auto

lemma list_all_dropWhile: "list_all P (dropWhile P xs) \<longleftrightarrow> list_all P xs"
  by (induction xs) auto

lemma js_trim_empty_iff: "js_trim s = [] \<longleftrightarrow> list_all js_is_ws s"
proof -
  have "js_trim s = [] \<longleftrightarrow> list_all js_is_ws (rev (dropWhile js_is_ws s))"
    by (simp add: js_trim_def dropWhile_eq_Nil_iff list_all_iff)
  also have "\<dots> \<longleftrightarrow> list_all js_is_ws s"
    by (simp add: list_all_dropWhile)
  finally show ?thesis .
qed

lemma js_trim_Nil [simp]: "js_trim [] = []"
  by (simp add: js_trim_def)

lemma length_js_lower [simp]: "length (js_lower s) = length s"
  by (simp add: js_lower_def)

lemma js_lower_append [simp]: "js_lower (s @ t) = js_lower s @ js_lower t"
  by (simp add: js_lower_def)

lemma js_lower_char_idem [simp]: "js_lower_char (js_lower_char c) = js_lower_char c"
proof -
  have n: "of_char c < (256 :: nat)"
    by simp
  show ?thesis
    using n by (auto simp: js_lower_char_def Let_def)
qed

lemma js_is_ws_lower [simp]: "js_is_ws (js_lower_char c) = js_is_ws c"
proof -
  have "of_char c < (256 :: nat)"
    by simp
  then show ?thesis
    by (auto simp: js_lower_char_def js_is_ws_def Let_def)
qed

lemma list_all_ws_lower [simp]: "list_all js_is_ws (js_lower s) = list_all js_is_ws s"
  by (simp add: js_lower_def list_all_iff)

lemma js_lower_idem [simp]: "js_lower (js_lower s) = js_lower s"
  by (simp add: js_lower_def)

text \<open>Case-insensitive substring test: a sublist survives lower-casing.\<close>

lemma sublist_js_lower: "sublist t s \<Longrightarrow> sublist (js_lower t) (js_lower s)"
  unfolding sublist_def js_lower_def by (metis map_append)

subsection \<open>JavaScript number differences of two counts\<close>

lemma int_diff_clamp [simp]:
  "(if 0 < int n - int m then int n - int m else 0) = int (n - m)"
  by auto

lemma int_diff_pos [simp]: "(0 < int n - int m) \<longleftrightarrow> m < n"
  by auto

lemma int_diff_less_1 [simp]: "(int n - int m < 1) \<longleftrightarrow> n \<le> m"
  by auto

subsection \<open>Lemmas on lists\<close>

lemma subseq_set: "subseq xs ys \<Longrightarrow> x \<in> set xs \<Longrightarrow> x \<in> set ys"
  using list_emb_set [of "(=)" xs ys x] by auto

subsection \<open>Lemmas on slices\<close>

lemma js_slice_0 [simp]: "js_slice xs 0 b = take b xs"
  by (simp add: js_slice_def)

lemma take_js_slice [simp]: "a \<le> b \<Longrightarrow> take a xs @ js_slice xs a b = take b xs"
  by (simp add: js_slice_def take_add [symmetric])

lemma js_slice_beyond [simp]: "length xs \<le> a \<Longrightarrow> js_slice xs a b = []"
  by (simp add: js_slice_def)

lemma length_js_slice: "length (js_slice xs a b) = min (b - a) (length xs - a)"
  by (simp add: js_slice_def)

lemma take_mult_Suc: "take (k * n) xs @ js_slice xs (k * n) (Suc k * n) = take (Suc k * n) xs"
  by (rule take_js_slice) simp

end
