(* ===== verification/Catalog.thy ===== *)
theory Catalog
  imports Prelude
begin

text \<open>
  The Catalog Store: the book, author and genre tables and the page size that
  \<open>src/scripts.js\<close> imports from \<open>./data.js\<close> (line 1). That module is not
  part of the sources, so its shape is taken from the specification (section 3):
  a book has an id, a title, an author id, an image URI, a description, a
  publication date and an ordered list of genre ids; \<open>authors\<close> and
  \<open>genres\<close> are JavaScript objects from ids to display names, modelled as
  association lists in the insertion order that \<open>Object.entries\<close> reports for
  non-numeric keys. The store is never written after load.
\<close>

record book =
  book_id :: string
  title :: string
  author :: string
  image :: string
  description :: string
  published :: string
  book_genres :: "string list"

record catalog =
  books :: "book list"
  authors :: "(string \<times> string) list"
  genres :: "(string \<times> string) list"
  books_per_page :: nat

text \<open>
  Property access \<open>authors[id]\<close> on a JavaScript object: the display name,
  or \<open>undefined\<close> (\<open>None\<close>) for an id the table does not hold.
\<close>

definition author_name :: "catalog \<Rightarrow> string \<Rightarrow> string option" where
  "author_name c a = map_of (authors c) a"

text \<open>
  Well-formed catalogs: the specification's assumptions on the store (book ids
  unique, object keys distinct) and a positive page size.
\<close>

definition wf_catalog :: "catalog \<Rightarrow> bool" where
  "wf_catalog c \<longleftrightarrow>
     distinct (map book_id (books c)) \<and> distinct (map fst (authors c)) \<and>
     distinct (map fst (genres c)) \<and> 0 < books_per_page c"

text \<open>
  A concrete store used by the scenarios of the specification (section 8): five
  books, two authors, two genres and two books per page.
\<close>

definition demo_book :: "string \<Rightarrow> string \<Rightarrow> string \<Rightarrow> string list \<Rightarrow> book" where
  "demo_book i t a gs =
     \<lparr>book_id = i, title = t, author = a, image = ''img/'' @ i, description = '''',
      published = ''1965-08-01'', book_genres = gs\<rparr>"

definition demo_catalog :: catalog where
  "demo_catalog =
     \<lparr>books = [demo_book ''b1'' ''Dune'' ''a1'' [''g1''],
               demo_book ''b2'' ''Emma'' ''a2'' [''g2''],
               demo_book ''b3'' ''Dune Messiah'' ''a1'' [''g1''],
               demo_book ''b4'' ''Persuasion'' ''a2'' [''g2''],
               demo_book ''b5'' ''Children of Dune'' ''a1'' [''g1'', ''g2'']],
      authors = [(''a1'', ''Frank Herbert''), (''a2'', ''Jane Austen'')],
      genres = [(''g1'', ''Science Fiction''), (''g2'', ''Classics'')],
      books_per_page = 2\<rparr>"

lemma wf_demo_catalog: "wf_catalog demo_catalog"
  by (simp add: wf_catalog_def demo_catalog_def demo_book_def)

end
