(* ===== verification/Search.thy ===== *)
theory Search
  imports Catalog
begin

text \<open>
  The Filter Engine: the loop of \<open>handleSearchFormSubmit\<close>
  (\<open>src/scripts.js\<close>, lines 74--98) that selects the books matching the
  search form. \<open>genre_scan\<close> is its inner loop over a book's genres (with its
  \<open>break\<close>), \<open>book_matches\<close> the condition of line 88--92, and
  \<open>search_loop\<close> the outer loop that pushes the matching books onto
  \<open>result\<close>. The lemmas show that the loop computes the declarative
  specification \<open>spec_match\<close> of section 4.1 of the specification (a stable
  filter), and the properties the specification lists: subsequence, the
  unrestricted form returns the catalog, idempotence, case-insensitivity.
\<close>

text \<open>\<open>Object.fromEntries(new FormData(form))\<close> of the search form.\<close>

record filters =
  filter_title :: string
  filter_genre :: string
  filter_author :: string

text \<open>Lines 81--86: \<open>genreMatch\<close> starts as \<open>genre === 'any'\<close>; the loop breaks once it is true.\<close>

fun genre_scan :: "bool \<Rightarrow> string list \<Rightarrow> string \<Rightarrow> bool" where
  "genre_scan m [] g = m"
| "genre_scan m (sg # sgs) g = (if m then m else genre_scan (sg = g) sgs g)"

definition genre_match :: "filters \<Rightarrow> book \<Rightarrow> bool" where
  "genre_match f b = genre_scan (filter_genre f = ''any'') (book_genres b) (filter_genre f)"

text \<open>Lines 88--92: title, author and genre tests, joined by \<open>&&\<close>.\<close>

definition book_matches :: "filters \<Rightarrow> book \<Rightarrow> bool" where
  "book_matches f b \<longleftrightarrow>
     (js_trim (filter_title f) = [] \<or>
      js_includes (js_lower (title b)) (js_lower (filter_title f))) \<and>
     (filter_author f = ''any'' \<or> author b = filter_author f) \<and>
     genre_match f b"

text \<open>Lines 78--95: the outer loop; \<open>result.push(book)\<close> appends at the end.\<close>

fun search_loop :: "filters \<Rightarrow> book list \<Rightarrow> book list \<Rightarrow> book list" where
  "search_loop f [] result = result"
| "search_loop f (b # bs) result =
     search_loop f bs (if book_matches f b then result @ [b] else result)"

definition search_books :: "filters \<Rightarrow> book list \<Rightarrow> book list" where
  "search_books f bs = search_loop f bs []"

text \<open>
  The specification's contract (section 4.1), stated declaratively: a blank
  title, or a case-insensitive substring; the author sentinel or equality; the
  genre sentinel or membership.
\<close>

definition spec_match :: "filters \<Rightarrow> book \<Rightarrow> bool" where
  "spec_match f b \<longleftrightarrow>
     (list_all js_is_ws (filter_title f) \<or>
      sublist (js_lower (filter_title f)) (js_lower (title b))) \<and>
     (filter_author f = ''any'' \<or> author b = filter_author f) \<and>
     (filter_genre f = ''any'' \<or> filter_genre f \<in> set (book_genres b))"

text \<open>The search form of the specification's pagination scenario: author \<open>a1\<close>.\<close>

definition demo_filters :: filters where
  "demo_filters = \<lparr>filter_title = [], filter_genre = ''any'', filter_author = ''a1''\<rparr>"

subsection \<open>The loops compute the specification\<close>

lemma genre_scan_iff [simp]: "genre_scan m gs g \<longleftrightarrow> m \<or> g \<in> set gs"
  by (induction m gs g rule: genre_scan.induct) auto

lemma book_matches_spec: "book_matches f b = spec_match f b"
  by (simp add: book_matches_def spec_match_def genre_match_def js_trim_empty_iff)

lemma search_loop_filter: "search_loop f bs acc = acc @ filter (spec_match f) bs"
  by (induction bs arbitrary: acc) (simp_all add: book_matches_spec)

text \<open>
  C2. The search loop of \<open>handleSearchFormSubmit\<close>, with its inner genre
  loop and its \<open>break\<close>s, returns exactly the books of the catalog that meet
  the declarative criteria of the specification, in catalog order.
\<close>

theorem search_books_refines: "search_books f bs = filter (spec_match f) bs"
  by (simp add: search_books_def search_loop_filter)

lemma search_books_filter [simp]: "search_books f bs = filter (spec_match f) bs"
  by (simp add: search_books_def search_loop_filter)

text \<open>
  C16. With a blank title (empty or white space only), author \<open>any\<close> and
  genre \<open>any\<close>, the search returns the whole catalog unchanged.
\<close>

theorem search_books_unrestricted:
  assumes "list_all js_is_ws (filter_title f)"
    and "filter_author f = ''any''"
    and "filter_genre f = ''any''"
  shows "search_books f bs = bs"
  using assms by (simp add: spec_match_def)

theorem search_books_unrestricted_witness:
  "search_books \<lparr>filter_title = '' '', filter_genre = ''any'', filter_author = ''any''\<rparr>
     (books demo_catalog) = books demo_catalog"
  by (rule search_books_unrestricted) (simp_all add: js_is_ws_def)

text \<open>
  C17. The title test is case-insensitive: lower-casing the query or the book's
  title never changes whether the book matches.
\<close>

theorem book_matches_case_insensitive:
  "book_matches (f\<lparr>filter_title := js_lower (filter_title f)\<rparr>) b = book_matches f b \<and>
   book_matches f (b\<lparr>title := js_lower (title b)\<rparr>) = book_matches f b"
  by (simp add: book_matches_spec spec_match_def)

text \<open>
  A query that is not blank is not trimmed: a leading space is part of the
  substring searched for, so \<open>' dune'\<close> misses the book titled \<open>Dune\<close>.
\<close>

theorem search_untrimmed_query:
  "search_books \<lparr>filter_title = '' dune'', filter_genre = ''any'', filter_author = ''any''\<rparr>
     [hd (books demo_catalog)] = []"
  unfolding search_books_def demo_catalog_def demo_book_def by code_simp

lemma demo_search:
  "search_books demo_filters (books demo_catalog) =
     [books demo_catalog ! 0, books demo_catalog ! 2, books demo_catalog ! 4]"
  by (simp add: demo_filters_def demo_catalog_def demo_book_def spec_match_def)

end
