(* ===== verification/Dom.thy ===== *)
theory Dom
  imports Catalog
begin

text \<open>
  The state that \<open>src/scripts.js\<close> keeps and writes: its two module
  variables \<open>page\<close> and \<open>matches\<close> (lines 3--4) and the parts of the
  document its handlers write. Each DOM field is named after the
  \<open>data-*\<close> attribute of the element it stands for. The element tree itself
  is not modelled; the handlers read back only what is recorded here.
\<close>

text \<open>
  A book preview button built by \<open>createBookPreview\<close> (lines 7--25): its
  \<open>data-preview\<close> attribute and the image, title and author name it shows
  (\<open>None\<close> for an author id missing from \<open>authors\<close>, shown as \<open>undefined\<close>).
\<close>

record preview =
  preview_id :: string
  preview_image :: string
  preview_title :: string
  preview_author :: "string option"

text \<open>
  The contents of the detail overlay \<open>[data-list-active]\<close> written by
  \<open>handleBookPreviewClick\<close> (lines 163--168). The subtitle is the author's
  name and the year of \<open>new Date(published)\<close>; the date string is kept
  as it is passed to \<open>Date\<close>.
\<close>

record detail =
  detail_blur :: string
  detail_image :: string
  detail_title :: string
  detail_subtitle_author :: "string option"
  detail_subtitle_date :: string
  detail_description :: string

record app_state =
  page :: nat
  matches :: "book list"
  list_items :: "preview list"
  list_message_show :: bool
  list_button_disabled :: bool
  list_button_count :: int
  search_genres :: "(string \<times> string) list"
  search_authors :: "(string \<times> string) list"
  search_overlay_open :: bool
  settings_overlay_open :: bool
  settings_theme :: string
  color_dark :: string
  color_light :: string
  list_active_open :: bool
  list_active :: "detail option"
  close_listeners :: nat

text \<open>
  The state when the module starts: \<open>page = 1\<close> and \<open>matches = books\<close>
  (lines 3--4); the document as the page's markup leaves it (the markup is not
  under \<open>src/\<close>): an empty list, the message hidden, the button enabled
  with no count, empty selects, every overlay closed, the detail overlay not
  yet filled and no listener on its close button.
\<close>

definition script_start :: "catalog \<Rightarrow> app_state" where
  "script_start c =
     \<lparr>page = 1, matches = books c, list_items = [], list_message_show = False,
      list_button_disabled = False, list_button_count = 0,
      search_genres = [], search_authors = [],
      search_overlay_open = False, settings_overlay_open = False,
      settings_theme = ''day'', color_dark = '''', color_light = '''',
      list_active_open = False, list_active = None, close_listeners = 0\<rparr>"

end
