(* ===== verification/Render.thy ===== *)
theory Render
  imports Dom
begin

text \<open>
  The Render Adapter of \<open>src/scripts.js\<close>: \<open>createBookPreview\<close> builds a
  preview for a book, \<open>renderBookPreviews\<close> appends previews to
  \<open>[data-list-items]\<close> in order, \<open>renderGenres\<close> and \<open>renderAuthors\<close>
  fill the two selects of the search form with an \<open>any\<close> option followed by
  the table's entries in \<open>Object.entries\<close> order.
\<close>

definition create_book_preview :: "catalog \<Rightarrow> book \<Rightarrow> preview" where
  "create_book_preview c b =
     \<lparr>preview_id = book_id b, preview_image = image b, preview_title = title b,
      preview_author = author_name c (author b)\<rparr>"

definition render_book_previews :: "catalog \<Rightarrow> book list \<Rightarrow> app_state \<Rightarrow> app_state" where
  "render_book_previews c bl s =
     s\<lparr>list_items := list_items s @ map (create_book_preview c) bl\<rparr>"

definition render_genres :: "catalog \<Rightarrow> app_state \<Rightarrow> app_state" where
  "render_genres c s =
     s\<lparr>search_genres := search_genres s @ (''any'', ''All Genres'') # genres c\<rparr>"

definition render_authors :: "catalog \<Rightarrow> app_state \<Rightarrow> app_state" where
  "render_authors c s =
     s\<lparr>search_authors := search_authors s @ (''any'', ''All Authors'') # authors c\<rparr>"

declare render_book_previews_def [handler_defs] render_genres_def [handler_defs]
  render_authors_def [handler_defs]

abbreviation previews :: "catalog \<Rightarrow> book list \<Rightarrow> preview list" where
  "previews c bs \<equiv> map (create_book_preview c) bs"

lemma render_book_previews_items [simp]:
  "list_items (render_book_previews c bl s) = list_items s @ previews c bl"
  by (simp add: render_book_previews_def)

lemma preview_id_create [simp]: "preview_id (create_book_preview c b) = book_id b"
  by (simp add: create_book_preview_def)

end
