(* ===== verification/Pagination.thy ===== *)
theory Pagination
  imports Search Render
begin

text \<open>
  The Pagination Controller of \<open>src/scripts.js\<close>: \<open>updateBookList\<close>
  (lines 101--118) installs a new match set, \<open>updateListButton\<close> (lines
  121--127) writes the remaining count into the show-more button,
  \<open>handleListButtonClick\<close> (lines 130--140) appends the next page, and
  \<open>handleSearchFormSubmit\<close> (lines 74--98) runs the search loop of theory
  \<open>Search\<close> and hands its result to \<open>updateBookList\<close>. The JavaScript
  numbers in \<open>matches.length - page * BOOKS_PER_PAGE\<close> are integers here,
  where the difference may be negative.

  The specification's Pagination Controller (section 4.2) is the abstract
  \<open>pager\<close>: a current page and a match set, with \<open>pager_advance\<close>,
  \<open>pager_visible\<close> and \<open>pager_remaining\<close>. The lemmas show that the
  handlers refine it: the rendered list is always the visible window of the
  pager, and the button shows its remaining count.
\<close>

definition list_remaining :: "catalog \<Rightarrow> app_state \<Rightarrow> int" where
  "list_remaining c s = int (length (matches s)) - int (page s * books_per_page c)"

definition update_list_button :: "catalog \<Rightarrow> app_state \<Rightarrow> app_state" where
  "update_list_button c s =
     s\<lparr>list_button_count :=
         (if list_remaining c s > 0 then list_remaining c s else 0)\<rparr>"

definition update_book_list :: "catalog \<Rightarrow> book list \<Rightarrow> app_state \<Rightarrow> app_state" where
  "update_book_list c result s =
     (let s1 = s\<lparr>page := 1, matches := result\<rparr>;
          s2 = s1\<lparr>list_message_show := (length result < 1)\<rparr>;
          s3 = render_book_previews c (js_slice result 0 (books_per_page c))
                 (s2\<lparr>list_items := []\<rparr>);
          s4 = s3\<lparr>list_button_disabled := (list_remaining c s3 < 1)\<rparr>;
          s5 = update_list_button c s4
      in s5\<lparr>search_overlay_open := False\<rparr>)"

definition handle_search_form_submit :: "catalog \<Rightarrow> filters \<Rightarrow> app_state \<Rightarrow> app_state" where
  "handle_search_form_submit c f s = update_book_list c (search_books f (books c)) s"

definition handle_list_button_click :: "catalog \<Rightarrow> app_state \<Rightarrow> app_state" where
  "handle_list_button_click c s =
     (let s1 = render_book_previews c
                 (js_slice (matches s) (page s * books_per_page c)
                    ((page s + 1) * books_per_page c)) s;
          s2 = s1\<lparr>page := page s + 1\<rparr>
      in update_list_button c s2)"

subsection \<open>The abstract controller of the specification\<close>

record pager =
  cur_page :: nat
  match_set :: "book list"

definition pager_init :: "book list \<Rightarrow> pager" where
  "pager_init m = \<lparr>cur_page = 1, match_set = m\<rparr>"

definition pager_advance :: "pager \<Rightarrow> pager" where
  "pager_advance p = p\<lparr>cur_page := Suc (cur_page p)\<rparr>"

definition pager_visible :: "nat \<Rightarrow> pager \<Rightarrow> book list" where
  "pager_visible n p = take (cur_page p * n) (match_set p)"

definition pager_remaining :: "nat \<Rightarrow> pager \<Rightarrow> nat" where
  "pager_remaining n p = length (match_set p) - cur_page p * n"

definition pager_of :: "app_state \<Rightarrow> pager" where
  "pager_of s = \<lparr>cur_page = page s, match_set = matches s\<rparr>"

text \<open>
  The list invariant: the previews on screen are those of the first
  \<open>page * BOOKS_PER_PAGE\<close> matches, and the page count is at least 1.
\<close>

definition pages_shown :: "catalog \<Rightarrow> app_state \<Rightarrow> bool" where
  "pages_shown c s \<longleftrightarrow>
     1 \<le> page s \<and>
     list_items s = previews c (pager_visible (books_per_page c) (pager_of s))"

text \<open>The label invariant: the button shows the pager's remaining count.\<close>

definition label_exact :: "catalog \<Rightarrow> app_state \<Rightarrow> bool" where
  "label_exact c s \<longleftrightarrow>
     list_button_count s = int (pager_remaining (books_per_page c) (pager_of s))"

subsection \<open>Behaviour of the handlers\<close>

lemma list_remaining_pos:
  "list_remaining c s > 0 \<longleftrightarrow> page s * books_per_page c < length (matches s)"
  by (simp add: list_remaining_def del: of_nat_mult)

lemma int_pager_remaining:
  "int (pager_remaining (books_per_page c) (pager_of s)) =
     (if list_remaining c s > 0 then list_remaining c s else 0)"
  by (simp add: pager_remaining_def pager_of_def list_remaining_def del: of_nat_mult)

lemma update_book_list_fields [simp]:
  "page (update_book_list c r s) = 1"
  "matches (update_book_list c r s) = r"
  "list_items (update_book_list c r s) = previews c (take (books_per_page c) r)"
  "list_message_show (update_book_list c r s) \<longleftrightarrow> r = []"
  "list_button_disabled (update_book_list c r s) \<longleftrightarrow> length r \<le> books_per_page c"
  "list_button_count (update_book_list c r s) =
     int (length r - books_per_page c)"
  "search_overlay_open (update_book_list c r s) = False"
  by (simp_all add: update_book_list_def update_list_button_def render_book_previews_def
      list_remaining_def Let_def del: of_nat_mult)

lemma update_book_list_frame [simp]:
  "search_genres (update_book_list c r s) = search_genres s"
  "search_authors (update_book_list c r s) = search_authors s"
  "settings_overlay_open (update_book_list c r s) = settings_overlay_open s"
  "settings_theme (update_book_list c r s) = settings_theme s"
  "color_dark (update_book_list c r s) = color_dark s"
  "color_light (update_book_list c r s) = color_light s"
  "list_active_open (update_book_list c r s) = list_active_open s"
  "list_active (update_book_list c r s) = list_active s"
  "close_listeners (update_book_list c r s) = close_listeners s"
  by (simp_all add: update_book_list_def update_list_button_def
      render_book_previews_def Let_def)

lemma handle_list_button_click_fields [simp]:
  "page (handle_list_button_click c s) = Suc (page s)"
  "matches (handle_list_button_click c s) = matches s"
  "list_items (handle_list_button_click c s) =
     list_items s @ previews c (js_slice (matches s) (page s * books_per_page c)
                                  (Suc (page s) * books_per_page c))"
  "list_button_count (handle_list_button_click c s) =
     int (length (matches s) - Suc (page s) * books_per_page c)"
  by (simp_all add: handle_list_button_click_def update_list_button_def
      render_book_previews_def list_remaining_def Let_def del: of_nat_mult)

lemma handle_list_button_click_frame [simp]:
  "list_message_show (handle_list_button_click c s) = list_message_show s"
  "list_button_disabled (handle_list_button_click c s) = list_button_disabled s"
  "search_genres (handle_list_button_click c s) = search_genres s"
  "search_authors (handle_list_button_click c s) = search_authors s"
  "search_overlay_open (handle_list_button_click c s) = search_overlay_open s"
  "settings_overlay_open (handle_list_button_click c s) = settings_overlay_open s"
  "settings_theme (handle_list_button_click c s) = settings_theme s"
  "color_dark (handle_list_button_click c s) = color_dark s"
  "color_light (handle_list_button_click c s) = color_light s"
  "list_active_open (handle_list_button_click c s) = list_active_open s"
  "list_active (handle_list_button_click c s) = list_active s"
  "close_listeners (handle_list_button_click c s) = close_listeners s"
  by (simp_all add: handle_list_button_click_def update_list_button_def
      render_book_previews_def Let_def)

subsection \<open>The handlers keep the invariants and refine the pager\<close>

lemma pager_of_update_book_list [simp]: "pager_of (update_book_list c r s) = pager_init r"
  by (simp add: pager_of_def pager_init_def)

lemma pager_of_click [simp]:
  "pager_of (handle_list_button_click c s) = pager_advance (pager_of s)"
  by (simp add: pager_of_def pager_advance_def)

lemma update_book_list_pages_shown: "pages_shown c (update_book_list c r s)"
  by (simp add: pages_shown_def pager_visible_def pager_init_def)

lemma update_book_list_label_exact: "label_exact c (update_book_list c r s)"
  by (simp add: label_exact_def pager_remaining_def pager_init_def)

lemma click_pages_shown:
  assumes "pages_shown c s"
  shows "pages_shown c (handle_list_button_click c s)"
proof -
  have "take (page s * books_per_page c) (matches s) @
          js_slice (matches s) (page s * books_per_page c) (Suc (page s) * books_per_page c) =
        take (Suc (page s) * books_per_page c) (matches s)"
    by (rule take_mult_Suc)
  then have "list_items s @ previews c (js_slice (matches s) (page s * books_per_page c)
                                         (Suc (page s) * books_per_page c)) =
             previews c (take (Suc (page s) * books_per_page c) (matches s))"
    using assms by (metis map_append pages_shown_def pager_visible_def pager_of_def
        pager.select_convs(1,2))
  then show ?thesis
    by (simp add: pages_shown_def pager_visible_def pager_advance_def pager_of_def)
qed

lemma click_label_exact: "label_exact c (handle_list_button_click c s)"
  by (simp add: label_exact_def pager_remaining_def pager_advance_def pager_of_def)

text \<open>
  C3. \<open>handleListButtonClick\<close> refines the specification's \<open>advance\<close>: on a
  state whose list shows the visible window of its pager, it moves the pager
  one page on, the list shows the new visible window, and the button shows
  the new remaining count.
\<close>

theorem click_refines_advance:
  assumes "pages_shown c s"
  shows "pager_of (handle_list_button_click c s) = pager_advance (pager_of s) \<and>
    list_items (handle_list_button_click c s) =
      previews c (pager_visible (books_per_page c) (pager_advance (pager_of s))) \<and>
    list_button_count (handle_list_button_click c s) =
      int (pager_remaining (books_per_page c) (pager_advance (pager_of s)))"
proof -
  have "pages_shown c (handle_list_button_click c s)"
    using assms by (rule click_pages_shown)
  moreover have "label_exact c (handle_list_button_click c s)"
    by (rule click_label_exact)
  ultimately show ?thesis
    by (simp add: pages_shown_def label_exact_def)
qed

theorem click_refines_advance_witness:
  "pager_of (handle_list_button_click demo_catalog (update_book_list demo_catalog
      (books demo_catalog) (script_start demo_catalog))) =
     pager_advance (pager_of (update_book_list demo_catalog (books demo_catalog)
      (script_start demo_catalog)))"
  using click_refines_advance [OF update_book_list_pages_shown] by blast

text \<open>
  C8. \<open>updateBookList\<close> refines the specification's \<open>initialize\<close> followed
  by a replace render: page 1, the new match set, its first page on screen,
  the no-results message exactly when the set is empty, the button disabled
  exactly when nothing remains, and the remaining count on the button.
\<close>

theorem update_book_list_refines_init:
  "pager_of (update_book_list c r s) = pager_init r \<and>
   list_items (update_book_list c r s) =
     previews c (pager_visible (books_per_page c) (pager_init r)) \<and>
   (list_message_show (update_book_list c r s) \<longleftrightarrow> r = []) \<and>
   (list_button_disabled (update_book_list c r s) \<longleftrightarrow>
      pager_remaining (books_per_page c) (pager_init r) = 0) \<and>
   list_button_count (update_book_list c r s) =
     int (pager_remaining (books_per_page c) (pager_init r))"
  by (simp add: pager_visible_def pager_remaining_def pager_init_def)

subsection \<open>Runs of the show-more button\<close>

lemma clicks_pages_shown:
  "pages_shown c s \<Longrightarrow> pages_shown c ((handle_list_button_click c ^^ k) s)"
  by (induction k) (simp_all add: click_pages_shown)

lemma clicks_pager:
  "pager_of ((handle_list_button_click c ^^ k) s) =
     (pager_of s)\<lparr>cur_page := page s + k\<rparr>"
  by (induction k) (simp_all add: pager_advance_def pager_of_def)

lemma clicks_after_search:
  "page ((handle_list_button_click c ^^ k) (handle_search_form_submit c f s)) = Suc k \<and>
   list_items ((handle_list_button_click c ^^ k) (handle_search_form_submit c f s)) =
     previews c (take (Suc k * books_per_page c) (search_books f (books c))) \<and>
   list_button_count ((handle_list_button_click c ^^ k) (handle_search_form_submit c f s)) =
     int (length (search_books f (books c)) - Suc k * books_per_page c)"
proof (cases k)
  case 0
  then show ?thesis
    by (simp add: handle_search_form_submit_def del: search_books_filter)
next
  case (Suc j)
  let ?s0 = "handle_search_form_submit c f s"
  let ?M = "search_books f (books c)"
  have shown: "pages_shown c ((handle_list_button_click c ^^ k) ?s0)"
    by (rule clicks_pages_shown)
      (simp add: handle_search_form_submit_def update_book_list_pages_shown)
  have pg: "pager_of ((handle_list_button_click c ^^ k) ?s0) =
              \<lparr>cur_page = Suc k, match_set = ?M\<rparr>"
    by (simp add: clicks_pager handle_search_form_submit_def pager_init_def
        del: search_books_filter)
  have lbl: "label_exact c ((handle_list_button_click c ^^ k) ?s0)"
    using Suc click_label_exact by (metis comp_apply funpow.simps(2))
  show ?thesis
    using shown pg lbl
    by (simp add: pages_shown_def label_exact_def pager_visible_def pager_remaining_def
        pager_of_def del: search_books_filter)
qed


text \<open>
  C9. After a search and \<open>k\<close> clicks on the show-more button, the page is
  \<open>k + 1\<close>, the list shows the first \<open>(k + 1) * BOOKS_PER_PAGE\<close> matches and
  the button counts the matches not yet shown.
\<close>

theorem search_then_clicks:
  "page ((handle_list_button_click c ^^ k) (handle_search_form_submit c f s)) = Suc k \<and>
   list_items ((handle_list_button_click c ^^ k) (handle_search_form_submit c f s)) =
     previews c (take (Suc k * books_per_page c) (search_books f (books c))) \<and>
   list_button_count ((handle_list_button_click c ^^ k) (handle_search_form_submit c f s)) =
     int (length (search_books f (books c)) - Suc k * books_per_page c)"
  by (rule clicks_after_search)

end
