(* ===== verification/Selection.thy ===== *)
theory Selection
  imports Render
begin

text \<open>
  The Selection Resolver: \<open>handleBookPreviewClick\<close> (\<open>src/scripts.js\<close>,
  lines 143--175). A click on the list reports its event path, the clicked
  node and its ancestors; a node is modelled by its \<open>data-preview\<close>
  attribute (\<open>None\<close> where it has none). The outer loop (lines 147--160)
  walks the path until \<open>active\<close> is set; at each node with a truthy
  (non-empty) \<open>data-preview\<close> the inner loop (lines 151--156) looks the id up
  in the whole catalog, first match winning. When a book is found the detail
  overlay is filled and opened, and one more click listener is added to its
  close button (line 171); each such listener closes the overlay
  (line 172).

  The lemmas show that the two loops compute the first catalog book whose id
  is the first resolvable id on the path, that an unknown id changes nothing,
  and that a rendered preview resolves back to its own book.
\<close>

fun lookup_loop :: "book option \<Rightarrow> book list \<Rightarrow> string \<Rightarrow> book option" where
  "lookup_loop r [] x = r"
| "lookup_loop r (b # bs) x =
     (if r \<noteq> None then r else lookup_loop (if book_id b = x then Some b else r) bs x)"

fun path_scan :: "book list \<Rightarrow> book option \<Rightarrow> string option list \<Rightarrow> book option" where
  "path_scan bs a [] = a"
| "path_scan bs a (n # ns) =
     (if a \<noteq> None then a
      else path_scan bs
             (case n of
                Some p \<Rightarrow> if p \<noteq> [] then lookup_loop None bs p else a
              | None \<Rightarrow> a) ns)"

definition book_detail :: "catalog \<Rightarrow> book \<Rightarrow> detail" where
  "book_detail c b =
     \<lparr>detail_blur = image b, detail_image = image b, detail_title = title b,
      detail_subtitle_author = author_name c (author b),
      detail_subtitle_date = published b, detail_description = description b\<rparr>"

definition handle_book_preview_click ::
  "catalog \<Rightarrow> string option list \<Rightarrow> app_state \<Rightarrow> app_state" where
  "handle_book_preview_click c path s =
     (case path_scan (books c) None path of
        None \<Rightarrow> s
      | Some b \<Rightarrow>
          s\<lparr>list_active_open := True, list_active := Some (book_detail c b),
            close_listeners := Suc (close_listeners s)\<rparr>)"

text \<open>
  A click on the close button runs every listener registered so far; each sets
  \<open>open = false\<close>. Before the first selection there is none.
\<close>

definition handle_close_click :: "app_state \<Rightarrow> app_state" where
  "handle_close_click s =
     (if 0 < close_listeners s then s\<lparr>list_active_open := False\<rparr> else s)"

declare handle_close_click_def [handler_defs]

text \<open>The specification's resolver: the first truthy id on the path that names a book.\<close>

fun resolve_path :: "book list \<Rightarrow> string option list \<Rightarrow> book option" where
  "resolve_path bs [] = None"
| "resolve_path bs (Some p # ns) =
     (if p \<noteq> [] \<and> find (\<lambda>b. book_id b = p) bs \<noteq> None
      then find (\<lambda>b. book_id b = p) bs else resolve_path bs ns)"
| "resolve_path bs (None # ns) = resolve_path bs ns"

subsection \<open>The loops\<close>

lemma lookup_loop_find: "lookup_loop None bs x = find (\<lambda>b. book_id b = x) bs"
proof -
  have "lookup_loop r bs x = (if r \<noteq> None then r else find (\<lambda>b. book_id b = x) bs)" for r
    by (induction r bs x rule: lookup_loop.induct) auto
  then show ?thesis by simp
qed

lemma path_scan_found [simp]: "path_scan bs (Some b) ns = Some b"
  by (cases ns) auto

lemma path_scan_resolve: "path_scan bs None ns = resolve_path bs ns"
  by (induction bs "None :: book option" ns rule: path_scan.induct)
    (auto simp: lookup_loop_find split: option.splits)

lemma find_book_id_Some:
  "distinct (map book_id bs) \<Longrightarrow> b \<in> set bs \<Longrightarrow> find (\<lambda>b'. book_id b' = book_id b) bs = Some b"
  by (induction bs) (auto simp: rev_image_eqI)

lemma handle_book_preview_click_resolve:
  "handle_book_preview_click c path s =
     (case resolve_path (books c) path of
        None \<Rightarrow> s
      | Some b \<Rightarrow>
          s\<lparr>list_active_open := True, list_active := Some (book_detail c b),
            close_listeners := Suc (close_listeners s)\<rparr>)"
  by (simp add: handle_book_preview_click_def path_scan_resolve)

lemma resolve_path_Nones [simp]: "set pre \<subseteq> {None} \<Longrightarrow> resolve_path bs (pre @ ns) = resolve_path bs ns"
  by (induction pre) auto

subsection \<open>Properties of the resolver\<close>

text \<open>
  C4. The two nested loops of \<open>handleBookPreviewClick\<close>, with their
  \<open>break\<close>s, compute the specification's resolver: the catalog's first book
  whose id is the first truthy \<open>data-preview\<close> on the event path that names
  a book.
\<close>

theorem path_scan_refines_resolve: "path_scan bs None path = resolve_path bs path"
  by (rule path_scan_resolve)

text \<open>
  C10. Selecting an id that no book has is a silent no-op: the state, and so
  the detail overlay, is unchanged.
\<close>

theorem unknown_id_no_change:
  assumes "\<forall>b\<in>set (books c). book_id b \<noteq> x"
  shows "handle_book_preview_click c [Some x] s = s"
proof -
  from assms have "find (\<lambda>b. book_id b = x) (books c) = None"
    by (simp add: find_None_iff)
  then show ?thesis
    by (simp add: handle_book_preview_click_resolve)
qed

theorem unknown_id_no_change_witness:
  "handle_book_preview_click demo_catalog [Some ''nonexistent-id''] (script_start demo_catalog) =
     script_start demo_catalog"
  by (rule unknown_id_no_change) (simp add: demo_catalog_def demo_book_def)

text \<open>
  C18. Round trip between rendering and selection: in a well-formed catalog, a
  click anywhere inside the preview that \<open>createBookPreview\<close> built for a
  catalog book with a non-empty id opens the detail overlay on that very book
  and registers one more close listener.
\<close>

theorem preview_click_roundtrip:
  assumes "wf_catalog c" and "b \<in> set (books c)" and "book_id b \<noteq> []"
    and "set pre \<subseteq> {None}"
  shows "handle_book_preview_click c (pre @ Some (preview_id (create_book_preview c b)) # ns) s =
    s\<lparr>list_active_open := True, list_active := Some (book_detail c b),
      close_listeners := Suc (close_listeners s)\<rparr>"
proof -
  from assms(1,2) have "find (\<lambda>b'. book_id b' = book_id b) (books c) = Some b"
    by (simp add: wf_catalog_def find_book_id_Some)
  with assms(3,4) show ?thesis
    by (simp add: handle_book_preview_click_resolve)
qed

theorem preview_click_roundtrip_witness:
  "handle_book_preview_click demo_catalog
      ([None] @ Some (preview_id (create_book_preview demo_catalog (books demo_catalog ! 2))) # [None])
      (script_start demo_catalog) =
   (script_start demo_catalog)\<lparr>list_active_open := True,
      list_active := Some (book_detail demo_catalog (books demo_catalog ! 2)),
      close_listeners := Suc (close_listeners (script_start demo_catalog))\<rparr>"
  by (rule preview_click_roundtrip) (simp_all add: wf_demo_catalog, simp_all add: demo_catalog_def demo_book_def)

text \<open>
  C25. A book whose id is the empty string can never be opened from its own
  preview: its \<open>data-preview\<close> attribute is falsy, so the click is ignored.
\<close>

theorem empty_id_never_selected:
  assumes "book_id b = []" and "set ns \<subseteq> {None}"
  shows "handle_book_preview_click c (Some (preview_id (create_book_preview c b)) # ns) s = s"
proof -
  have "resolve_path (books c) (ns @ []) = None"
    using assms(2) by (simp only: resolve_path_Nones) simp
  then show ?thesis
    using assms by (simp add: handle_book_preview_click_resolve)
qed

theorem empty_id_never_selected_witness:
  "handle_book_preview_click (demo_catalog\<lparr>books := demo_book [] ''Untitled'' ''a1'' [] # books demo_catalog\<rparr>)
     (Some (preview_id (create_book_preview (demo_catalog\<lparr>books := demo_book [] ''Untitled'' ''a1'' [] # books demo_catalog\<rparr>)
        (demo_book [] ''Untitled'' ''a1'' []))) # [None])
     (script_start demo_catalog) = script_start demo_catalog"
  by (rule empty_id_never_selected) (simp_all add: demo_book_def)

end
