(* ===== verification/Theme.thy ===== *)
theory Theme
  imports Dom
begin

text \<open>
  The Theme Controller and the overlay buttons of \<open>src/scripts.js\<close>:
  \<open>handleThemeToggle\<close> (lines 187--197) reads the settings select and writes
  the two CSS colour variables; the settings form's submit listener (lines
  231--235) runs it and closes the settings overlay; \<open>handleSearchCancel\<close>
  and \<open>handleSettingsCancel\<close> (lines 178--185) and the two header buttons
  (lines 224--230) open and close the overlays. A palette is the pair
  (\<open>--color-dark\<close>, \<open>--color-light\<close>); the specification's
  \<open>ThemeState\<close> is the datatype \<open>theme\<close>, read off the palette by
  \<open>theme_of\<close>. Focusing the search title field (line 226) is not modelled.
\<close>

datatype theme = Day | Night

definition palette :: "theme \<Rightarrow> string \<times> string" where
  "palette t = (case t of
      Night \<Rightarrow> (''255, 255, 255'', ''10, 10, 20'')
    | Day \<Rightarrow> (''10, 10, 20'', ''255, 255, 255''))"

definition set_palette :: "theme \<Rightarrow> app_state \<Rightarrow> app_state" where
  "set_palette t s = s\<lparr>color_dark := fst (palette t), color_light := snd (palette t)\<rparr>"

definition handle_theme_toggle :: "app_state \<Rightarrow> app_state" where
  "handle_theme_toggle s =
     (if settings_theme s = ''night'' then set_palette Night s else set_palette Day s)"

definition handle_settings_submit :: "app_state \<Rightarrow> app_state" where
  "handle_settings_submit s = (handle_theme_toggle s)\<lparr>settings_overlay_open := False\<rparr>"

definition handle_search_cancel :: "app_state \<Rightarrow> app_state" where
  "handle_search_cancel s = s\<lparr>search_overlay_open := False\<rparr>"

definition handle_settings_cancel :: "app_state \<Rightarrow> app_state" where
  "handle_settings_cancel s = s\<lparr>settings_overlay_open := False\<rparr>"

definition handle_header_search :: "app_state \<Rightarrow> app_state" where
  "handle_header_search s = s\<lparr>search_overlay_open := True\<rparr>"

definition handle_header_settings :: "app_state \<Rightarrow> app_state" where
  "handle_header_settings s = s\<lparr>settings_overlay_open := True\<rparr>"

definition theme_of :: "app_state \<Rightarrow> theme option" where
  "theme_of s =
     (if (color_dark s, color_light s) = palette Night then Some Night
      else if (color_dark s, color_light s) = palette Day then Some Day else None)"

declare set_palette_def [handler_defs] handle_theme_toggle_def [handler_defs]
  handle_settings_submit_def [handler_defs] handle_search_cancel_def [handler_defs]
  handle_settings_cancel_def [handler_defs] handle_header_search_def [handler_defs]
  handle_header_settings_def [handler_defs]

lemma palette_distinct [simp]: "palette Day \<noteq> palette Night" "palette Night \<noteq> palette Day"
  by (simp_all add: palette_def)

lemma theme_of_set_palette [simp]: "theme_of (set_palette t s) = Some t"
  by (cases t) (simp_all add: theme_of_def set_palette_def palette_def)

lemma theme_of_overlays [simp]:
  "theme_of (s\<lparr>settings_overlay_open := b\<rparr>) = theme_of s"
  "theme_of (s\<lparr>search_overlay_open := b\<rparr>) = theme_of s"
  "theme_of (s\<lparr>settings_theme := v\<rparr>) = theme_of s"
  "theme_of (s\<lparr>list_active_open := b\<rparr>) = theme_of s"
  by (simp_all add: theme_of_def)

lemma set_palette_frame [simp]:
  "page (set_palette t s) = page s" "matches (set_palette t s) = matches s"
  "list_items (set_palette t s) = list_items s"
  "settings_theme (set_palette t s) = settings_theme s"
  by (simp_all add: set_palette_def)

text \<open>
  C19. A settings submit applies the theme chosen in the select: the palette
  becomes Night exactly when the select reads \<open>night\<close>, Day otherwise, and
  the settings overlay closes.
\<close>

theorem settings_submit_theme:
  "theme_of (handle_settings_submit s) =
     Some (if settings_theme s = ''night'' then Night else Day) \<and>
   \<not> settings_overlay_open (handle_settings_submit s)"
  by (simp add: handle_settings_submit_def handle_theme_toggle_def)

end
