(* ===== verification/App.thy ===== *)
theory App
  imports Pagination Selection Theme
begin

text \<open>
  The application: \<open>initializePage\<close> (\<open>src/scripts.js\<close>, lines
  200--215), run once when the module loads (line 237), and the event
  listeners wired at lines 219--235, as one step function \<open>dispatch\<close>
  over a datatype of the user's inputs. A click on the show-more button while
  it is disabled never reaches \<open>handleListButtonClick\<close>: the browser fires
  no click event on a disabled button. \<open>ThemeSelect\<close> is the user changing
  the settings select, which no handler observes until the form is submitted.
  \<open>window.matchMedia('(prefers-color-scheme: dark)')\<close> is the boolean
  \<open>dark\<close>, read once.

  The reachable states are an inductive predicate; the invariant \<open>app_inv\<close>
  collects what every handler keeps, and every property of a reachable state
  below is proved from it by rule induction.
\<close>

definition initialize_page :: "catalog \<Rightarrow> bool \<Rightarrow> app_state \<Rightarrow> app_state" where
  "initialize_page c dark s =
     (let s1 = render_book_previews c (js_slice (matches s) 0 (books_per_page c)) s;
          s2 = render_authors c (render_genres c s1);
          s3 = (if dark then set_palette Night (s2\<lparr>settings_theme := ''night''\<rparr>)
                else set_palette Day (s2\<lparr>settings_theme := ''day''\<rparr>));
          s4 = s3\<lparr>list_button_count :=
                   int (length (books c)) - int (books_per_page c)\<rparr>
      in s4\<lparr>list_button_disabled := (list_remaining c s4 > 0)\<rparr>)"

definition app_init :: "catalog \<Rightarrow> bool \<Rightarrow> app_state" where
  "app_init c dark = initialize_page c dark (script_start c)"

datatype event =
    SearchSubmit filters
  | ListButtonClick
  | ListItemsClick "string option list"
  | DetailCloseClick
  | SearchCancelClick
  | SettingsCancelClick
  | HeaderSearchClick
  | HeaderSettingsClick
  | ThemeSelect string
  | SettingsSubmit

fun dispatch :: "catalog \<Rightarrow> app_state \<Rightarrow> event \<Rightarrow> app_state" where
  "dispatch c s (SearchSubmit f) = handle_search_form_submit c f s"
| "dispatch c s ListButtonClick =
     (if list_button_disabled s then s else handle_list_button_click c s)"
| "dispatch c s (ListItemsClick path) = handle_book_preview_click c path s"
| "dispatch c s DetailCloseClick = handle_close_click s"
| "dispatch c s SearchCancelClick = handle_search_cancel s"
| "dispatch c s SettingsCancelClick = handle_settings_cancel s"
| "dispatch c s HeaderSearchClick = handle_header_search s"
| "dispatch c s HeaderSettingsClick = handle_header_settings s"
| "dispatch c s (ThemeSelect v) = s\<lparr>settings_theme := v\<rparr>"
| "dispatch c s SettingsSubmit = handle_settings_submit s"

fun run :: "catalog \<Rightarrow> app_state \<Rightarrow> event list \<Rightarrow> app_state" where
  "run c s [] = s"
| "run c s (e # es) = run c (dispatch c s e) es"

inductive reachable :: "catalog \<Rightarrow> bool \<Rightarrow> app_state \<Rightarrow> bool" where
  init: "reachable c dark (app_init c dark)"
| step: "reachable c dark s \<Longrightarrow> reachable c dark (dispatch c s e)"

subsection \<open>The invariant\<close>

definition initial_listing :: "catalog \<Rightarrow> app_state \<Rightarrow> bool" where
  "initial_listing c s \<longleftrightarrow> page s = 1 \<and> matches s = books c"

text \<open>
  The button's count is the pager's remaining count, except on the initial
  listing, where \<open>initializePage\<close> wrote \<open>books.length - BOOKS_PER_PAGE\<close>.
\<close>

definition label_ok :: "catalog \<Rightarrow> app_state \<Rightarrow> bool" where
  "label_ok c s \<longleftrightarrow>
     label_exact c s \<or>
     initial_listing c s \<and>
       list_button_count s = int (length (books c)) - int (books_per_page c)"

definition button_ok :: "catalog \<Rightarrow> app_state \<Rightarrow> bool" where
  "button_ok c s \<longleftrightarrow>
     (list_button_disabled s \<longrightarrow>
        pager_remaining (books_per_page c) (pager_of s) = 0 \<or> initial_listing c s)"

definition detail_ok :: "catalog \<Rightarrow> app_state \<Rightarrow> bool" where
  "detail_ok c s \<longleftrightarrow>
     (list_active_open s \<longrightarrow> 0 < close_listeners s \<and> list_active s \<noteq> None) \<and>
     (case list_active s of None \<Rightarrow> True | Some d \<Rightarrow> d \<in> book_detail c ` set (books c))"

definition selects_ok :: "catalog \<Rightarrow> app_state \<Rightarrow> bool" where
  "selects_ok c s \<longleftrightarrow>
     search_genres s = (''any'', ''All Genres'') # genres c \<and>
     search_authors s = (''any'', ''All Authors'') # authors c"

definition app_inv :: "catalog \<Rightarrow> app_state \<Rightarrow> bool" where
  "app_inv c s \<longleftrightarrow>
     pages_shown c s \<and> subseq (matches s) (books c) \<and> label_ok c s \<and> button_ok c s \<and>
     (list_message_show s \<longrightarrow> matches s = []) \<and> detail_ok c s \<and>
     theme_of s \<noteq> None \<and> selects_ok c s"

text \<open>An event that opens the detail overlay: a list click whose path names a catalog book.\<close>

definition selects_book :: "catalog \<Rightarrow> event \<Rightarrow> bool" where
  "selects_book c e =
     (case e of ListItemsClick p \<Rightarrow> resolve_path (books c) p \<noteq> None | _ \<Rightarrow> False)"

subsection \<open>Every handler keeps the invariant\<close>

lemma app_init_fields [simp]:
  "page (app_init c d) = 1"
  "matches (app_init c d) = books c"
  "list_items (app_init c d) = previews c (take (books_per_page c) (books c))"
  "list_button_disabled (app_init c d) \<longleftrightarrow> books_per_page c < length (books c)"
  "list_button_count (app_init c d) = int (length (books c)) - int (books_per_page c)"
  "list_message_show (app_init c d) = False"
  "search_genres (app_init c d) = (''any'', ''All Genres'') # genres c"
  "search_authors (app_init c d) = (''any'', ''All Authors'') # authors c"
  "theme_of (app_init c d) = Some (if d then Night else Day)"
  "settings_theme (app_init c d) = (if d then ''night'' else ''day'')"
  "list_active_open (app_init c d) = False"
  "list_active (app_init c d) = None"
  "close_listeners (app_init c d) = 0"
  by (simp_all add: app_init_def initialize_page_def script_start_def Let_def
      render_book_previews_def render_genres_def render_authors_def list_remaining_def
      set_palette_def theme_of_def del: of_nat_mult)

lemma app_inv_init: "app_inv c (app_init c d)"
  by (simp add: app_inv_def pages_shown_def pager_visible_def pager_of_def label_ok_def
      initial_listing_def button_ok_def detail_ok_def selects_ok_def)

lemma dispatch_pages_shown:
  assumes "pages_shown c s"
  shows "pages_shown c (dispatch c s e)"
proof (cases e)
  case (SearchSubmit f)
  then show ?thesis by (simp add: handle_search_form_submit_def update_book_list_pages_shown)
next
  case ListButtonClick
  with assms show ?thesis by (simp add: click_pages_shown)
next
  case (ListItemsClick p)
  with assms show ?thesis
    by (simp add: handle_book_preview_click_def pages_shown_def pager_visible_def pager_of_def
        split: option.split)
qed (use assms in \<open>simp_all add: handler_defs pages_shown_def pager_visible_def pager_of_def\<close>)

lemma resolve_path_in: "resolve_path bs ns = Some b \<Longrightarrow> b \<in> set bs"
  by (induction bs ns rule: resolve_path.induct) (auto simp: find_Some_iff split: if_splits)

lemma dispatch_subseq:
  assumes "subseq (matches s) (books c)"
  shows "subseq (matches (dispatch c s e)) (books c)"
proof (cases e)
  case (SearchSubmit f)
  then show ?thesis by (simp add: handle_search_form_submit_def)
next
  case (ListItemsClick p)
  with assms show ?thesis
    by (simp add: handle_book_preview_click_def split: option.split)
qed (use assms in \<open>simp_all add: handler_defs\<close>)

lemma label_ok_exact: "label_exact c s \<Longrightarrow> label_ok c s"
  by (simp add: label_ok_def)

lemma dispatch_label_ok:
  assumes "label_ok c s"
  shows "label_ok c (dispatch c s e)"
proof (cases e)
  case (SearchSubmit f)
  then show ?thesis
    by (simp add: handle_search_form_submit_def update_book_list_label_exact label_ok_exact
        del: search_books_filter)
next
  case ListButtonClick
  with assms show ?thesis by (simp add: click_label_exact label_ok_exact)
next
  case (ListItemsClick p)
  with assms show ?thesis
    by (simp add: handle_book_preview_click_def label_ok_def label_exact_def pager_of_def
        initial_listing_def split: option.split)
qed (use assms in \<open>simp_all add: handler_defs label_ok_def label_exact_def pager_of_def
      initial_listing_def\<close>)

lemma dispatch_button_ok:
  assumes "button_ok c s"
  shows "button_ok c (dispatch c s e)"
proof (cases e)
  case (SearchSubmit f)
  then show ?thesis
    by (simp add: handle_search_form_submit_def button_ok_def pager_remaining_def pager_init_def
        del: search_books_filter)
next
  case ListButtonClick
  with assms show ?thesis by (simp add: button_ok_def)
next
  case (ListItemsClick p)
  with assms show ?thesis
    by (simp add: handle_book_preview_click_def button_ok_def pager_of_def
        initial_listing_def split: option.split)
qed (use assms in \<open>simp_all add: handler_defs button_ok_def pager_of_def initial_listing_def\<close>)

lemma dispatch_message:
  assumes "list_message_show s \<longrightarrow> matches s = []"
  shows "list_message_show (dispatch c s e) \<longrightarrow> matches (dispatch c s e) = []"
proof (cases e)
  case (SearchSubmit f)
  then show ?thesis by (simp add: handle_search_form_submit_def del: search_books_filter)
next
  case (ListItemsClick p)
  with assms show ?thesis
    by (simp add: handle_book_preview_click_def split: option.split)
qed (use assms in \<open>simp_all add: handler_defs\<close>)

lemma dispatch_detail_ok:
  assumes "detail_ok c s"
  shows "detail_ok c (dispatch c s e)"
proof (cases e)
  case (ListItemsClick p)
  with assms show ?thesis
    by (auto simp: handle_book_preview_click_def detail_ok_def path_scan_resolve
        dest: resolve_path_in split: option.split)
qed (use assms in \<open>auto simp: handler_defs detail_ok_def handle_search_form_submit_def\<close>)

lemma theme_of_colors:
  "color_dark t = color_dark s \<Longrightarrow> color_light t = color_light s \<Longrightarrow> theme_of t = theme_of s"
  by (simp add: theme_of_def)

lemma dispatch_theme:
  assumes "theme_of s \<noteq> None"
  shows "theme_of (dispatch c s e) \<noteq> None"
proof (cases e)
  case SettingsSubmit
  then show ?thesis by (simp add: handle_settings_submit_def handle_theme_toggle_def)
next
  case (SearchSubmit f)
  then have "theme_of (dispatch c s e) = theme_of s"
    by (intro theme_of_colors) (simp_all add: handle_search_form_submit_def)
  with assms show ?thesis by simp
next
  case ListButtonClick
  then have "theme_of (dispatch c s e) = theme_of s"
    by (intro theme_of_colors) simp_all
  with assms show ?thesis by simp
next
  case (ListItemsClick p)
  then have "theme_of (dispatch c s e) = theme_of s"
    by (intro theme_of_colors) (simp_all add: handle_book_preview_click_def split: option.split)
  with assms show ?thesis by simp
qed (use assms in \<open>simp_all add: handler_defs\<close>)

lemma dispatch_selects_ok:
  assumes "selects_ok c s"
  shows "selects_ok c (dispatch c s e)"
proof (cases e)
  case (ListItemsClick p)
  with assms show ?thesis
    by (simp add: handle_book_preview_click_def selects_ok_def split: option.split)
qed (use assms in \<open>simp_all add: handler_defs selects_ok_def handle_search_form_submit_def\<close>)

lemma app_inv_dispatch: "app_inv c s \<Longrightarrow> app_inv c (dispatch c s e)"
  unfolding app_inv_def
  by (intro conjI dispatch_pages_shown dispatch_subseq dispatch_label_ok dispatch_button_ok
      dispatch_message dispatch_detail_ok dispatch_theme dispatch_selects_ok; simp)

lemma reachable_app_inv: "reachable c d s \<Longrightarrow> app_inv c s"
proof (induction rule: reachable.induct)
  case (init c dark)
  show ?case by (rule app_inv_init)
next
  case (step c dark s e)
  from step.IH show ?case by (rule app_inv_dispatch)
qed

subsection \<open>Runs of events and the properties of reachable states\<close>

lemma run_append: "run c s (es @ fs) = run c (run c s es) fs"
  by (induction es arbitrary: s) auto

lemma reachable_run: "reachable c d s \<Longrightarrow> reachable c d (run c s es)"
  by (induction es arbitrary: s) (auto intro: reachable.step)

lemma run_clicks:
  "run c s (replicate k ListButtonClick) =
     (if list_button_disabled s then s else (handle_list_button_click c ^^ k) s)"
proof (induction k arbitrary: s)
  case 0
  then show ?case by simp
next
  case (Suc k)
  show ?case
  proof (cases "list_button_disabled s")
    case True
    with Suc.IH show ?thesis by simp
  next
    case False
    then have "\<not> list_button_disabled (handle_list_button_click c s)" by simp
    with False Suc.IH [of "handle_list_button_click c s"] show ?thesis
      by (simp add: funpow_swap1)
  qed
qed

lemma run_search_clicks:
  "list_items (run c s (SearchSubmit f # replicate k ListButtonClick)) =
     previews c (take (Suc k * books_per_page c) (search_books f (books c))) \<and>
   list_button_count (run c s (SearchSubmit f # replicate k ListButtonClick)) =
     int (length (search_books f (books c)) - Suc k * books_per_page c)"
proof (cases "length (search_books f (books c)) \<le> books_per_page c")
  case True
  then have "take (Suc k * books_per_page c) (search_books f (books c)) =
             take (books_per_page c) (search_books f (books c))"
    by simp
  with True show ?thesis
    by (simp add: run_clicks handle_search_form_submit_def del: search_books_filter)
next
  case False
  then show ?thesis
    using clicks_after_search [where c = c and k = k and f = f and s = s]
    by (simp add: run_clicks handle_search_form_submit_def del: search_books_filter)
qed

lemma reachable_init_demo: "reachable demo_catalog True (app_init demo_catalog True)"
  by (rule reachable.init)

text \<open>
  C1. In every reachable state the list shows exactly the previews of the
  first \<open>page * BOOKS_PER_PAGE\<close> matches, in order, and the page count is at
  least 1.
\<close>

theorem reachable_list_window:
  assumes "reachable c d s"
  shows "1 \<le> page s \<and>
    list_items s = previews c (take (page s * books_per_page c) (matches s))"
  using reachable_app_inv [OF assms]
  by (simp add: app_inv_def pages_shown_def pager_visible_def pager_of_def)

theorem reachable_list_window_witness:
  "1 \<le> page (app_init demo_catalog True) \<and>
   list_items (app_init demo_catalog True) =
     previews demo_catalog (take (page (app_init demo_catalog True) * books_per_page demo_catalog)
       (matches (app_init demo_catalog True)))"
  by (rule reachable_list_window [OF reachable_init_demo])

text \<open>
  C5. The show-more button is stuck on the initial listing: when the catalog
  holds more than one page, \<open>initializePage\<close> disables the button although
  books remain, so a click on it does nothing.
\<close>

theorem init_button_disabled_bug:
  assumes "books_per_page c < length (books c)"
  shows "list_button_disabled (app_init c d) \<and>
    0 < pager_remaining (books_per_page c) (pager_of (app_init c d)) \<and>
    dispatch c (app_init c d) ListButtonClick = app_init c d"
  using assms by (simp add: pager_remaining_def pager_of_def)

theorem init_button_disabled_bug_witness:
  "list_button_disabled (app_init demo_catalog False) \<and>
   0 < pager_remaining (books_per_page demo_catalog) (pager_of (app_init demo_catalog False)) \<and>
   dispatch demo_catalog (app_init demo_catalog False) ListButtonClick = app_init demo_catalog False"
  by (rule init_button_disabled_bug) (simp add: demo_catalog_def)

text \<open>
  C7. Paging through a search with the show-more button: after a search and
  \<open>k\<close> clicks, the list shows the first \<open>(k + 1) * BOOKS_PER_PAGE\<close> matches
  and the button counts the rest; once \<open>(k + 1) * BOOKS_PER_PAGE\<close> reaches
  the number of matches every match is listed and the count stays 0.
\<close>

theorem search_pages_through:
  assumes "length (search_books f (books c)) \<le> Suc k * books_per_page c"
  shows "list_items (run c s (SearchSubmit f # replicate k ListButtonClick)) =
      previews c (search_books f (books c)) \<and>
    list_button_count (run c s (SearchSubmit f # replicate k ListButtonClick)) = 0"
  using run_search_clicks [of c s f k] assms by (simp del: search_books_filter)

theorem search_pages_through_witness:
  "list_items (run demo_catalog (app_init demo_catalog False)
      (SearchSubmit \<lparr>filter_title = [], filter_genre = ''any'', filter_author = ''a1''\<rparr> #
       replicate 1 ListButtonClick)) =
     previews demo_catalog (search_books \<lparr>filter_title = [], filter_genre = ''any'', filter_author = ''a1''\<rparr>
       (books demo_catalog)) \<and>
   list_button_count (run demo_catalog (app_init demo_catalog False)
      (SearchSubmit \<lparr>filter_title = [], filter_genre = ''any'', filter_author = ''a1''\<rparr> #
       replicate 1 ListButtonClick)) = 0"
  by (rule search_pages_through)
    (simp add: demo_catalog_def demo_book_def spec_match_def del: replicate.simps)

lemma demo_selected_reachable:
  "reachable demo_catalog False
     (run demo_catalog (app_init demo_catalog False) [ListItemsClick [None, Some ''b3'']])"
  by (rule reachable_run [OF reachable.init])

lemma demo_selected_state:
  "list_active (run demo_catalog (app_init demo_catalog False) [ListItemsClick [None, Some ''b3'']]) =
     Some (book_detail demo_catalog (books demo_catalog ! 2)) \<and>
   list_active_open (run demo_catalog (app_init demo_catalog False) [ListItemsClick [None, Some ''b3'']])"
  by (simp add: handle_book_preview_click_def demo_catalog_def demo_book_def)

text \<open>
  C12. The detail overlay only ever shows a book of the catalog: in every
  reachable state its contents are the detail of some catalog book.
\<close>

theorem reachable_detail_from_catalog:
  assumes "reachable c d s" and "list_active s = Some det"
  shows "det \<in> book_detail c ` set (books c)"
  using reachable_app_inv [OF assms(1)] assms(2) by (simp add: app_inv_def detail_ok_def)

theorem reachable_detail_from_catalog_witness:
  "book_detail demo_catalog (books demo_catalog ! 2) \<in> book_detail demo_catalog ` set (books demo_catalog)"
  using reachable_detail_from_catalog [OF demo_selected_reachable] demo_selected_state by blast

text \<open>
  C13. In every reachable state an open detail overlay is closed by its close
  button: opening it always registered a listener first.
\<close>

theorem close_always_closes:
  assumes "reachable c d s" and "list_active_open s"
  shows "\<not> list_active_open (dispatch c s DetailCloseClick)"
  using reachable_app_inv [OF assms(1)] assms(2)
  by (simp add: app_inv_def detail_ok_def handle_close_click_def)

theorem close_always_closes_witness:
  "\<not> list_active_open (dispatch demo_catalog
      (run demo_catalog (app_init demo_catalog False) [ListItemsClick [None, Some ''b3'']])
      DetailCloseClick)"
  using close_always_closes [OF demo_selected_reachable] demo_selected_state by blast

text \<open>
  C22. In every reachable state the palette is one of the two themes, Day or
  Night.
\<close>

theorem reachable_theme:
  assumes "reachable c d s"
  shows "theme_of s = Some Day \<or> theme_of s = Some Night"
proof -
  have "theme_of s \<noteq> None" using reachable_app_inv [OF assms] by (simp add: app_inv_def)
  then show ?thesis by (metis theme.exhaust option.exhaust)
qed

theorem reachable_theme_witness:
  "theme_of (app_init demo_catalog True) = Some Day \<or> theme_of (app_init demo_catalog True) = Some Night"
  by (rule reachable_theme [OF reachable_init_demo])

text \<open>
  C11. The show-more button is never disabled again after a search with more than
  one page: once the clicks have listed every match it stays enabled with
  nothing remaining.
\<close>

theorem enabled_after_last_page:
  assumes "books_per_page c < length (search_books f (books c))"
    and "length (search_books f (books c)) \<le> Suc k * books_per_page c"
  shows "\<not> list_button_disabled (run c s (SearchSubmit f # replicate k ListButtonClick)) \<and>
    pager_remaining (books_per_page c)
      (pager_of (run c s (SearchSubmit f # replicate k ListButtonClick))) = 0"
proof -
  let ?s0 = "handle_search_form_submit c f s"
  have en: "\<not> list_button_disabled ?s0"
    using assms(1) by (simp add: handle_search_form_submit_def del: search_books_filter)
  have pg: "pager_of ((handle_list_button_click c ^^ k) ?s0) =
      \<lparr>cur_page = Suc k, match_set = search_books f (books c)\<rparr>"
    by (simp add: clicks_pager handle_search_form_submit_def pager_init_def del: search_books_filter)
  have "list_button_disabled ((handle_list_button_click c ^^ k) ?s0) = list_button_disabled ?s0"
    by (induction k) simp_all
  with en pg assms(2) show ?thesis
    by (simp add: run_clicks pager_remaining_def del: search_books_filter)
qed

theorem enabled_after_last_page_witness:
  "\<not> list_button_disabled (run demo_catalog (app_init demo_catalog False)
      (SearchSubmit demo_filters # replicate 1 ListButtonClick)) \<and>
   pager_remaining (books_per_page demo_catalog)
      (pager_of (run demo_catalog (app_init demo_catalog False)
        (SearchSubmit demo_filters # replicate 1 ListButtonClick))) = 0"
  by (rule enabled_after_last_page) (simp_all add: demo_search del: search_books_filter,
      simp_all add: demo_catalog_def)

text \<open>
  C24. On a catalog smaller than one page the initial button label shows a
  negative count, \<open>books.length - BOOKS_PER_PAGE\<close>, unclamped.
\<close>

theorem init_count_negative:
  assumes "length (books c) < books_per_page c"
  shows "list_button_count (app_init c d) < 0"
  using assms by simp

theorem init_count_negative_witness:
  "list_button_count (app_init (demo_catalog\<lparr>books_per_page := 10\<rparr>) False) < 0"
  by (rule init_count_negative) (simp add: demo_catalog_def)

text \<open>
  C15. In every reachable state the match set is a subsequence of the catalog
  and the no-results message is shown only when it is empty.
\<close>

theorem reachable_matches_subseq:
  assumes "reachable c d s"
  shows "subseq (matches s) (books c) \<and> (list_message_show s \<longrightarrow> matches s = [])"
  using reachable_app_inv [OF assms] by (simp add: app_inv_def)

theorem reachable_matches_subseq_witness:
  "subseq (matches (app_init demo_catalog True)) (books demo_catalog)"
  using reachable_matches_subseq [OF reachable_init_demo] by blast

text \<open>
  C14. In every reachable state the button is disabled only when nothing
  remains or on the initial listing, and its count is the number of matches
  not yet listed, except on the initial listing.
\<close>

theorem reachable_button_label:
  assumes "reachable c d s"
  shows "(list_button_disabled s \<longrightarrow>
       pager_remaining (books_per_page c) (pager_of s) = 0 \<or> initial_listing c s) \<and>
    (list_button_count s = int (pager_remaining (books_per_page c) (pager_of s)) \<or>
       initial_listing c s)"
  using reachable_app_inv [OF assms]
  by (auto simp: app_inv_def button_ok_def label_ok_def label_exact_def)

theorem reachable_button_label_witness:
  "(pager_remaining (books_per_page demo_catalog) (pager_of (app_init demo_catalog True)) = 0 \<or>
     initial_listing demo_catalog (app_init demo_catalog True)) \<and>
   (list_button_count (app_init demo_catalog True) =
      int (pager_remaining (books_per_page demo_catalog) (pager_of (app_init demo_catalog True))) \<or>
    initial_listing demo_catalog (app_init demo_catalog True))"
  using reachable_button_label [OF reachable_init_demo] by (simp add: demo_catalog_def)

text \<open>
  C23. The search form's selects are filled once at start-up and never change:
  an \<open>any\<close> option followed by the genre (author) table in its order.
\<close>

theorem reachable_selects:
  assumes "reachable c d s"
  shows "search_genres s = (''any'', ''All Genres'') # genres c \<and>
    search_authors s = (''any'', ''All Authors'') # authors c"
  using reachable_app_inv [OF assms] by (simp add: app_inv_def selects_ok_def)

theorem reachable_selects_witness:
  "search_genres (app_init demo_catalog True) = (''any'', ''All Genres'') # genres demo_catalog \<and>
   search_authors (app_init demo_catalog True) = (''any'', ''All Authors'') # authors demo_catalog"
  by (rule reachable_selects [OF reachable_init_demo])

lemma reachable_preview_book:
  assumes "reachable c d s" and "p \<in> set (list_items s)"
  shows "\<exists>b\<in>set (books c). p = create_book_preview c b"
proof -
  have inv: "app_inv c s" by (rule reachable_app_inv [OF assms(1)])
  then have "list_items s = previews c (take (page s * books_per_page c) (matches s))"
    by (simp add: app_inv_def pages_shown_def pager_visible_def pager_of_def)
  with assms(2) obtain b where b: "b \<in> set (matches s)" and p: "p = create_book_preview c b"
    by (auto dest: in_set_takeD)
  from inv have "subseq (matches s) (books c)" by (simp add: app_inv_def)
  then have "b \<in> set (books c)" using b by (rule subseq_set)
  with p show ?thesis by blast
qed

subsection \<open>Properties of whole runs\<close>

lemma dispatch_close_listeners:
  "close_listeners (dispatch c s e) =
     close_listeners s + (if selects_book c e then 1 else 0)"
proof (cases e)
  case (SearchSubmit f)
  then show ?thesis by (simp add: selects_book_def handle_search_form_submit_def)
next
  case (ListItemsClick p)
  then show ?thesis
    by (simp add: selects_book_def handle_book_preview_click_resolve split: option.split)
qed (simp_all add: selects_book_def handler_defs)

lemma dispatch_theme_frame:
  assumes "SettingsSubmit \<noteq> e"
  shows "theme_of (dispatch c s e) = theme_of s"
proof (cases e)
  case (SearchSubmit f)
  then show ?thesis by (intro theme_of_colors) (simp_all add: handle_search_form_submit_def)
next
  case ListButtonClick
  then show ?thesis by (intro theme_of_colors) simp_all
next
  case (ListItemsClick p)
  then show ?thesis
    by (intro theme_of_colors) (simp_all add: handle_book_preview_click_def split: option.split)
qed (use assms in \<open>simp_all add: handler_defs\<close>)

text \<open>
  C21. Over any run of events, the close button gains exactly one listener per
  click on the list that resolves to a catalog book, and no other event adds
  or removes one.
\<close>

theorem close_listeners_run:
  "close_listeners (run c s es) = close_listeners s + length (filter (selects_book c) es)"
  by (induction es arbitrary: s) (simp_all add: dispatch_close_listeners)

text \<open>
  C20. The theme is submit-gated: over any run of events without a settings
  submit (searches, paging, selections, the overlay buttons, cancelling the
  settings, editing the select), the palette never changes.
\<close>

theorem theme_changes_only_on_submit:
  assumes "SettingsSubmit \<notin> set es"
  shows "theme_of (run c s es) = theme_of s"
  using assms by (induction es arbitrary: s) (simp_all add: dispatch_theme_frame)

theorem theme_changes_only_on_submit_witness:
  "theme_of (run demo_catalog (app_init demo_catalog True)
     [HeaderSettingsClick, ThemeSelect ''day'', SettingsCancelClick, SearchSubmit demo_filters,
      ListButtonClick, ListItemsClick [Some ''b1''], DetailCloseClick]) = Some Night"
proof -
  have "theme_of (run demo_catalog (app_init demo_catalog True)
     [HeaderSettingsClick, ThemeSelect ''day'', SettingsCancelClick, SearchSubmit demo_filters,
      ListButtonClick, ListItemsClick [Some ''b1''], DetailCloseClick]) =
        theme_of (app_init demo_catalog True)"
    by (rule theme_changes_only_on_submit) simp
  then show ?thesis by simp
qed

end
