(* ===== verification/Spec2Isabelle.thy ===== *)
theory Spec2Isabelle
  imports App
begin

text \<open>
  \<^bold>\<open>A verified model of the catalog browser of \<^verbatim>\<open>src/scripts.js\<close>.\<close>

  \<^medskip>
  \<^emph>\<open>The program.\<close> \<open>src/scripts.js\<close> is the whole program: a browser
  module that imports a static catalog from \<open>./data.js\<close> (the books, the author
  and genre tables and \<open>BOOKS_PER_PAGE\<close>), keeps two module variables,
  \<open>page\<close> and \<open>matches\<close>, and wires DOM event listeners. Its parts, as the
  specification names them: a Catalog Store (\<open>data.js\<close>), a Filter Engine
  (the search loop of \<open>handleSearchFormSubmit\<close>), a Pagination Controller
  (\<open>updateBookList\<close>, \<open>updateListButton\<close>, \<open>handleListButtonClick\<close>),
  a Selection Resolver (\<open>handleBookPreviewClick\<close>), a Render Adapter
  (\<open>createBookPreview\<close>, \<open>renderBookPreviews\<close>, \<open>renderGenres\<close>,
  \<open>renderAuthors\<close>) and a Theme Controller (\<open>handleThemeToggle\<close> and the
  settings form). They interact only through the shared state: every handler
  reads and writes the module variables and the document.

  \<^medskip>
  \<^emph>\<open>The theories.\<close>
  \<^item> \<open>Prelude\<close>: the JavaScript built-ins the code calls (\<open>trim\<close>,
    \<open>toLowerCase\<close>, \<open>includes\<close>, \<open>slice\<close>) on strings of code units below
    256, with \<open>includes\<close> proved equal to the library's \<open>sublist\<close>; shared list
    and integer lemmas; the collection \<open>handler_defs\<close>.
  \<^item> \<open>Catalog\<close>: the records \<open>book\<close> and \<open>catalog\<close> of \<open>data.js\<close>, modelled
    from the specification because that file is not among the sources;
    \<open>wf_catalog\<close> (unique ids, positive page size); a five-book demo catalog.
  \<^item> \<open>Search\<close>: \<open>genre_scan\<close>, \<open>book_matches\<close>, \<open>search_loop\<close> and
    \<open>search_books\<close>, line by line from \<open>handleSearchFormSubmit\<close>
    (lines 74--98), proved equal to the declarative \<open>spec_match\<close> filter.
  \<^item> \<open>Dom\<close>: the record \<open>app_state\<close> of the module variables and of the
    document fields the handlers write, and the state at module start.
  \<^item> \<open>Render\<close>: \<open>create_book_preview\<close> and the three render functions.
  \<^item> \<open>Pagination\<close>: the list handlers, the specification's abstract
    \<open>pager\<close> (page and match set) and the refinement of \<open>initialize\<close> and
    \<open>advance\<close> by \<open>updateBookList\<close> and \<open>handleListButtonClick\<close>.
  \<^item> \<open>Selection\<close>: the two nested loops of \<open>handleBookPreviewClick\<close>, proved
    equal to the resolver \<open>resolve_path\<close>, the detail overlay and its close
    listeners.
  \<^item> \<open>Theme\<close>: the palette, \<open>handleThemeToggle\<close>, the settings submit and the
    overlay buttons.
  \<^item> \<open>App\<close>: \<open>initializePage\<close>, the datatype \<open>event\<close> of user inputs and the
    step function \<open>dispatch\<close> (the listeners of lines 219--235), runs of
    events, the inductive set of reachable states and the invariant
    \<open>app_inv\<close>, proved for every reachable state by rule induction, one
    preservation lemma per part of the invariant.
  \<^item> this theory: the property that spans rendering, state and selection.

  \<^medskip>
  \<^emph>\<open>What is proved.\<close> The search loop computes the specification's filter
  (a stable filter of the catalog), case-insensitively, and returns everything
  for blank criteria. The list handlers refine the abstract pager, and in every
  reachable state the list shows exactly the first \<open>page * BOOKS_PER_PAGE\<close>
  matches; a search followed by enough clicks lists every match. The resolver
  finds the first catalog book named on the event path, ignores unknown ids, and
  a rendered preview opens its own book. The detail overlay only shows catalog
  books and its close button always works; the palette is always Day or Night
  and changes only on a settings submit.

  \<^medskip>
  \<^emph>\<open>Findings.\<close> \<open>initializePage\<close> disables the show-more button exactly when
  books remain (line 214 tests \<open>> 0\<close> where \<open>updateBookList\<close> tests
  \<open>< 1\<close>), so the initial listing cannot be extended until a search is
  made; its label \<open>books.length - BOOKS_PER_PAGE\<close> is negative on a small
  catalog; \<open>handleListButtonClick\<close> never disables the button again, so it
  stays enabled with nothing left; a book with an empty id cannot be opened;
  a non-blank query is searched untrimmed.

  \<^medskip>
  \<^emph>\<open>Not modelled.\<close> The markup and styling (the initial document is the
  state \<open>script_start\<close>), HTML escaping of the preview text,
  \<open>window.scrollTo\<close> and the focus of the search field (view effects that no
  handler reads back), the year computed by \<open>new Date(...)\<close> (the date string
  is kept), and code units of 256 and above in \<open>toLowerCase\<close> and
  \<open>trim\<close>. No loop needs fuel: every loop of the code runs over a finite list
  and is a structural recursion.

  \<^medskip>
  \<^emph>\<open>Runs.\<close> Over any sequence of events the close button gains exactly one
  listener per list click naming a catalog book, and without a settings
  submit the palette never changes, so a cancelled choice leaves the select
  and the page out of step.

  \<^medskip>
  \<^emph>\<open>Plan.\<close> Still to come: search forms restricted to the values the
  selects offer, with the \<open>any\<close> sentinel normalisation of the
  specification; recovery from the initial disabled button by a search, from
  every reachable state; and the overlay state machine (search and settings
  dialogs) with the submit-gated theme as a refinement of the specification's
  two-state Theme Controller.
\<close>

text \<open>
  C6. Round trip through rendering and selection: in every reachable state of
  a well-formed catalog, each preview on the list belongs to a catalog book,
  and clicking it (when its id is not empty) opens the detail overlay on
  exactly that book.
\<close>

theorem rendered_preview_opens_its_book:
  assumes "reachable c d s" and "wf_catalog c" and "p \<in> set (list_items s)"
    and "preview_id p \<noteq> []"
  shows "\<exists>b\<in>set (books c). p = create_book_preview c b \<and>
    list_active (dispatch c s (ListItemsClick [Some (preview_id p)])) = Some (book_detail c b) \<and>
    list_active_open (dispatch c s (ListItemsClick [Some (preview_id p)]))"
proof -
  obtain b where b: "b \<in> set (books c)" and p: "p = create_book_preview c b"
    using reachable_preview_book [OF assms(1,3)] by blast
  from assms(2) b have "find (\<lambda>b'. book_id b' = book_id b) (books c) = Some b"
    by (simp add: wf_catalog_def find_book_id_Some)
  with assms(4) b p show ?thesis
    by (auto simp: handle_book_preview_click_resolve)
qed

theorem rendered_preview_opens_its_book_witness:
  "\<exists>b\<in>set (books demo_catalog).
     create_book_preview demo_catalog (books demo_catalog ! 0) = create_book_preview demo_catalog b \<and>
     list_active (dispatch demo_catalog (app_init demo_catalog False)
       (ListItemsClick [Some (preview_id (create_book_preview demo_catalog (books demo_catalog ! 0)))])) =
       Some (book_detail demo_catalog b) \<and>
     list_active_open (dispatch demo_catalog (app_init demo_catalog False)
       (ListItemsClick [Some (preview_id (create_book_preview demo_catalog (books demo_catalog ! 0)))]))"
  by (rule rendered_preview_opens_its_book [OF reachable.init wf_demo_catalog])
    (simp_all add: demo_catalog_def demo_book_def)

end
